theory Spec2Isabelle
  imports Complex_Main "HOL-Library.Sublist"
begin

section \<open>Tensors, masks and errors\<close>

text \<open>
  The exceptions the two source files can raise or meet, each carrying its message.
  \<open>RuntimeError\<close> is what a collaborator raises on resource exhaustion (its message then
  contains "out of memory"), \<open>IndexError\<close> what torch raises when a boolean index does not
  have the shape of the tensor it indexes.
\<close>

datatype error =
    RuntimeError string
  | IndexError string
  | ValueError string
  | TypeError string
  | UnboundLocalError string

text \<open>
  A float of a tensor: a finite value, or one of the three special values that a float
  division by zero produces. Rounding and the sign of zero are not modelled.
\<close>

datatype fval = Fin rat | PosInf | NegInf | NaN

text \<open>A boolean tensor of shape [batch_size x 29]: one row per image, one entry per region.\<close>

type_synonym mask = "bool list list"

text \<open>
  \<open>torch.logical_and(a, b)\<close> on two boolean tensors of the same shape. Tensors of different
  shapes are an error here (torch would first try to broadcast them; the two masks of the
  source both have shape [batch_size x 29]).
\<close>

definition logical_and :: "mask \<Rightarrow> mask \<Rightarrow> error + mask" where
  "logical_and a b =
     (if map length a = map length b
      then Inr (map2 (\<lambda>ra rb. map2 (\<lambda>x y. x \<and> y) ra rb) a b)
      else Inl (RuntimeError ''The size of tensor a must match the size of tensor b''))"

text \<open>\<open>t.reshape(-1)\<close> on a two-dimensional tensor: its entries in row-major order.\<close>

definition reshape_flat :: "'a list list \<Rightarrow> 'a list" where
  "reshape_flat t = concat t"

text \<open>
  \<open>t[m]\<close> for a one-dimensional boolean tensor \<open>m\<close>: the rows of \<open>t\<close> at the true
  positions of \<open>m\<close>, in order. The mask must be as long as \<open>t\<close> has rows.
\<close>

definition getitem_mask :: "'a list \<Rightarrow> bool list \<Rightarrow> error + 'a list" where
  "getitem_mask t m =
     (if length m = length t
      then Inr (map fst (filter snd (zip t m)))
      else Inl (IndexError ''The shape of the mask does not match the shape of the indexed tensor''))"

text \<open>
  \<open>t[m]\<close> for a two-dimensional boolean tensor \<open>m\<close> of the shape of the first two
  dimensions of \<open>t\<close>: the entries \<open>t[i][r]\<close> with \<open>m[i][r]\<close> true, in row-major order.
\<close>

definition getitem_mask2 :: "'a list list \<Rightarrow> mask \<Rightarrow> error + 'a list" where
  "getitem_mask2 t m =
     (if map length m = map length t
      then Inr (concat (map2 (\<lambda>row mrow. map fst (filter snd (zip row mrow))) t m))
      else Inl (IndexError ''The shape of the mask does not match the shape of the indexed tensor''))"

text \<open>
  The specification's flattened index list of a mask: iterate the dense grid in row-major
  order (image by image, region by region) and keep the positions whose entry is true.
\<close>

definition true_positions :: "mask \<Rightarrow> (nat \<times> nat) list" where
  "true_positions M =
     concat (map (\<lambda>i. map (Pair i) (filter (\<lambda>r. M ! i ! r) [0..<length (M ! i)]))
                 [0..<length M])"

text \<open>
  The specification's training mask: a slot is kept when it is detected and has a
  ground-truth sentence (element-wise logical AND of the two masks).
\<close>

definition training_mask :: "mask \<Rightarrow> mask \<Rightarrow> mask" where
  "training_mask detected has_sentence_gt =
     map (\<lambda>i. map (\<lambda>r. detected ! i ! r \<and> has_sentence_gt ! i ! r) [0..<length (detected ! i)])
         [0..<length detected]"

section \<open>The decoder inputs of ReportGenerationModel\<close>

type_synonym token_rows = "int list list"
type_synonym attention_rows = "fval list list"
type_synonym feature = "fval list"

text \<open>
  \<open>get_valid_decoder_input_for_training\<close>: the rows of \<open>input_ids\<close> and
  \<open>attention_mask\<close> (shape [(batch_size * 29) x seq_len]) and the entries of
  \<open>region_features\<close> (shape [batch_size x 29 x 1024]) of the regions that were detected and
  have a ground-truth sentence.
\<close>

definition get_valid_decoder_input_for_training ::
  "mask \<Rightarrow> mask \<Rightarrow> token_rows \<Rightarrow> attention_rows \<Rightarrow> feature list list
     \<Rightarrow> error + (token_rows \<times> attention_rows \<times> feature list)" where
  "get_valid_decoder_input_for_training class_detected region_has_sentence input_ids
       attention_mask region_features =
     (case logical_and class_detected region_has_sentence of
        Inl e \<Rightarrow> Inl e
      | Inr valid \<Rightarrow>
          let valid_reshaped = reshape_flat valid in
          (case getitem_mask input_ids valid_reshaped of
             Inl e \<Rightarrow> Inl e
           | Inr valid_input_ids \<Rightarrow>
               (case getitem_mask attention_mask valid_reshaped of
                  Inl e \<Rightarrow> Inl e
                | Inr valid_attention_mask \<Rightarrow>
                    (case getitem_mask2 region_features valid of
                       Inl e \<Rightarrow> Inl e
                     | Inr valid_region_features \<Rightarrow>
                         Inr (valid_input_ids, valid_attention_mask, valid_region_features)))))"

text \<open>
  \<open>get_valid_decoder_input_for_evaluation\<close>: the rows of \<open>input_ids\<close> and
  \<open>attention_mask\<close> of the regions the classifier selected.
\<close>

definition get_valid_decoder_input_for_evaluation ::
  "mask \<Rightarrow> token_rows \<Rightarrow> attention_rows \<Rightarrow> error + (token_rows \<times> attention_rows)" where
  "get_valid_decoder_input_for_evaluation selected_regions input_ids attention_mask =
     (let selected_flat = reshape_flat selected_regions in
      (case getitem_mask input_ids selected_flat of
         Inl e \<Rightarrow> Inl e
       | Inr valid_input_ids \<Rightarrow>
           (case getitem_mask attention_mask selected_flat of
              Inl e \<Rightarrow> Inl e
            | Inr valid_attention_mask \<Rightarrow> Inr (valid_input_ids, valid_attention_mask))))"

section \<open>ReportGenerationModel\<close>

text \<open>
  The values that flow between the stages. An image is a gray-scale picture, a target holds
  the ground-truth boxes and labels of one image, the detections are the boxes the object
  detector found (per image and region). Their contents are not inspected by the code
  modelled here.
\<close>

type_synonym image = "fval list list"
type_synonym detections = "fval list list list"
type_synonym loss_dict = "(string \<times> fval) list"

record image_target =
  boxes :: "fval list list"
  labels :: "int list"

text \<open>
  What the object detector returns: the loss dict, the detections (only returned in
  evaluation mode), \<open>top_region_features\<close> of shape [batch_size x 29 x 1024] and
  \<open>class_detected\<close> of shape [batch_size x 29].
\<close>

record detector_output =
  det_loss_dict :: loss_dict
  det_detections :: detections
  det_top_region_features :: "feature list list"
  det_class_detected :: mask

text \<open>
  What the binary classifier for region selection returns: its loss (when asked for),
  and outside training mode \<open>selected_regions\<close> of shape [batch_size x 29] and
  \<open>selected_region_features\<close> of shape [num_regions_selected_in_batch x 1024].
\<close>

record selector_output =
  sel_loss :: fval
  sel_selected_regions :: mask
  sel_selected_region_features :: "feature list"

text \<open>
  The model: its mode flags and its three sub-modules. The sub-modules are not part of the
  code modelled here, so they are fields holding functions; each may raise. Their first
  argument is the module's training flag. The object detector takes the images and,
  optionally, the targets; the classifier takes the region features, \<open>class_detected\<close>,
  \<open>return_loss\<close> and, optionally, \<open>region_has_sentence\<close>; the language model takes the
  arguments \<open>forward\<close> and \<open>generate\<close> pass to it.
\<close>

record report_generation_model =
  training :: bool
  pretrain_without_lm_model :: bool
  object_detector ::
    "bool \<Rightarrow> image list \<Rightarrow> image_target list option \<Rightarrow> error + detector_output"
  binary_classifier_region_selection ::
    "bool \<Rightarrow> feature list list \<Rightarrow> mask \<Rightarrow> bool \<Rightarrow> mask option \<Rightarrow> error + selector_output"
  language_model ::
    "token_rows \<Rightarrow> attention_rows \<Rightarrow> feature list \<Rightarrow> bool \<Rightarrow> fval list list option
       \<Rightarrow> int list list option \<Rightarrow> bool \<Rightarrow> error + fval"
  language_model_generate ::
    "feature list \<Rightarrow> int option \<Rightarrow> int \<Rightarrow> int \<Rightarrow> bool \<Rightarrow> int \<Rightarrow> bool \<Rightarrow> error + token_rows"

text \<open>The calls a run makes to the sub-modules, in order; the language model's with its inputs.\<close>

datatype stage_call =
    ObjectDetectorCall
  | RegionSelectionCall
  | LanguageModelCall token_rows attention_rows "feature list"
  | LanguageModelGenerateCall "feature list"

text \<open>
  What \<open>forward\<close> and \<open>generate\<close> return: the integer \<open>-1\<close> or a tuple of components.
\<close>

datatype component =
    LossDict loss_dict
  | Loss fval
  | Detections detections
  | BoolTensor mask
  | OutputIds token_rows

datatype py_result = PyInt int | PyTuple "component list"

text \<open>
  \<open>ReportGenerationModel.forward\<close>. The result is the list of sub-module calls made and
  the value returned or the exception raised. The code after the two mode branches (the
  check for empty \<open>valid_input_ids\<close>, the language model call and the final return, which
  tests \<open>self.training\<close> again) is written out at the end of each branch.
\<close>

definition forward ::
  "report_generation_model \<Rightarrow> image list \<Rightarrow> image_target list \<Rightarrow> token_rows \<Rightarrow> attention_rows
     \<Rightarrow> mask \<Rightarrow> mask \<Rightarrow> bool \<Rightarrow> fval list list option \<Rightarrow> int list list option \<Rightarrow> bool
     \<Rightarrow> stage_call list \<times> (error + py_result)" where
  "forward m images image_targets input_ids attention_mask region_has_sentence
       region_is_abnormal return_loss past_key_values position_ids use_cache =
     (if training m then
        (case object_detector m True images (Some image_targets) of
           Inl e \<Rightarrow> ([ObjectDetectorCall], Inl e)
         | Inr det \<Rightarrow>
        (case binary_classifier_region_selection m True (det_top_region_features det)
                (det_class_detected det) True (Some region_has_sentence) of
           Inl e \<Rightarrow> ([ObjectDetectorCall, RegionSelectionCall], Inl e)
         | Inr sel \<Rightarrow>
        if pretrain_without_lm_model m then
          ([ObjectDetectorCall, RegionSelectionCall],
           Inr (PyTuple [LossDict (det_loss_dict det), Loss (sel_loss sel)]))
        else
        (case get_valid_decoder_input_for_training (det_class_detected det) region_has_sentence
                input_ids attention_mask (det_top_region_features det) of
           Inl e \<Rightarrow> ([ObjectDetectorCall, RegionSelectionCall], Inl e)
         | Inr (valid_input_ids, valid_attention_mask, valid_region_features) \<Rightarrow>
        if length valid_input_ids = 0 then
          ([ObjectDetectorCall, RegionSelectionCall], Inr (PyInt (- 1)))
        else
        (case language_model m valid_input_ids valid_attention_mask valid_region_features
                return_loss past_key_values position_ids use_cache of
           Inl e \<Rightarrow>
             ([ObjectDetectorCall, RegionSelectionCall,
               LanguageModelCall valid_input_ids valid_attention_mask valid_region_features],
              Inl e)
         | Inr language_model_loss \<Rightarrow>
             ([ObjectDetectorCall, RegionSelectionCall,
               LanguageModelCall valid_input_ids valid_attention_mask valid_region_features],
              Inr (PyTuple [LossDict (det_loss_dict det), Loss (sel_loss sel),
                            Loss language_model_loss]))))))
      else
        (case object_detector m False images (Some image_targets) of
           Inl e \<Rightarrow> ([ObjectDetectorCall], Inl e)
         | Inr det \<Rightarrow>
        (case binary_classifier_region_selection m False (det_top_region_features det)
                (det_class_detected det) True (Some region_has_sentence) of
           Inl e \<Rightarrow> ([ObjectDetectorCall, RegionSelectionCall], Inl e)
         | Inr sel \<Rightarrow>
        if pretrain_without_lm_model m then
          ([ObjectDetectorCall, RegionSelectionCall],
           Inr (PyTuple [LossDict (det_loss_dict det), Loss (sel_loss sel),
                         Detections (det_detections det), BoolTensor (det_class_detected det),
                         BoolTensor (sel_selected_regions sel)]))
        else
        (case get_valid_decoder_input_for_evaluation (sel_selected_regions sel) input_ids
                attention_mask of
           Inl e \<Rightarrow> ([ObjectDetectorCall, RegionSelectionCall], Inl e)
         | Inr (valid_input_ids, valid_attention_mask) \<Rightarrow>
        let valid_region_features = sel_selected_region_features sel in
        if length valid_input_ids = 0 then
          ([ObjectDetectorCall, RegionSelectionCall], Inr (PyInt (- 1)))
        else
        (case language_model m valid_input_ids valid_attention_mask valid_region_features
                return_loss past_key_values position_ids use_cache of
           Inl e \<Rightarrow>
             ([ObjectDetectorCall, RegionSelectionCall,
               LanguageModelCall valid_input_ids valid_attention_mask valid_region_features],
              Inl e)
         | Inr language_model_loss \<Rightarrow>
             ([ObjectDetectorCall, RegionSelectionCall,
               LanguageModelCall valid_input_ids valid_attention_mask valid_region_features],
              Inr (PyTuple [LossDict (det_loss_dict det), Loss (sel_loss sel),
                            Loss language_model_loss, Detections (det_detections det),
                            BoolTensor (det_class_detected det),
                            BoolTensor (sel_selected_regions sel)])))))))"

text \<open>
  \<open>ReportGenerationModel.generate\<close>: the object detector is called without targets, the
  classifier without loss, and the language model generates from the selected region
  features unless there are none.
\<close>

definition generate ::
  "report_generation_model \<Rightarrow> image list \<Rightarrow> int option \<Rightarrow> int \<Rightarrow> int \<Rightarrow> bool \<Rightarrow> int \<Rightarrow> bool
     \<Rightarrow> stage_call list \<times> (error + py_result)" where
  "generate m images max_length num_beams num_beam_groups do_sample num_return_sequences
       early_stopping =
     (case object_detector m (training m) images None of
        Inl e \<Rightarrow> ([ObjectDetectorCall], Inl e)
      | Inr det \<Rightarrow>
     (case binary_classifier_region_selection m (training m) (det_top_region_features det)
             (det_class_detected det) False None of
        Inl e \<Rightarrow> ([ObjectDetectorCall, RegionSelectionCall], Inl e)
      | Inr sel \<Rightarrow>
     let selected_region_features = sel_selected_region_features sel in
     if length selected_region_features = 0 then
       ([ObjectDetectorCall, RegionSelectionCall], Inr (PyInt (- 1)))
     else
     (case language_model_generate m selected_region_features max_length num_beams
             num_beam_groups do_sample num_return_sequences early_stopping of
        Inl e \<Rightarrow>
          ([ObjectDetectorCall, RegionSelectionCall,
            LanguageModelGenerateCall selected_region_features], Inl e)
      | Inr output_ids \<Rightarrow>
          ([ObjectDetectorCall, RegionSelectionCall,
            LanguageModelGenerateCall selected_region_features],
           Inr (PyTuple [OutputIds output_ids, BoolTensor (sel_selected_regions sel),
                         Detections (det_detections det),
                         BoolTensor (det_class_detected det)])))))"

text \<open>
  Modelled from the spec: the binary classifier for region selection is not part of the
  code modelled here. The specification gives its contract: from the dense features and
  the detected mask it returns a loss, the selected mask and the compacted features, and
  the selected mask implies the detected mask "by construction of the selector's own
  masking"; masks are combined with logical AND, and compaction keeps the entries at the
  true positions of the mask. The classifier's own prediction for every slot and its
  loss are parameters.
\<close>

definition select ::
  "(feature list list \<Rightarrow> mask) \<Rightarrow> (feature list list \<Rightarrow> mask option \<Rightarrow> fval)
     \<Rightarrow> bool \<Rightarrow> feature list list \<Rightarrow> mask \<Rightarrow> bool \<Rightarrow> mask option \<Rightarrow> error + selector_output" where
  "select predict loss_of is_training dense_features detected_mask return_loss ground_truth =
     (case logical_and (predict dense_features) detected_mask of
        Inl e \<Rightarrow> Inl e
      | Inr selected_mask \<Rightarrow>
          (case getitem_mask2 dense_features selected_mask of
             Inl e \<Rightarrow> Inl e
           | Inr compacted_features \<Rightarrow>
               Inr \<lparr>sel_loss = loss_of dense_features ground_truth,
                    sel_selected_regions = selected_mask,
                    sel_selected_region_features = compacted_features\<rparr>))"

section \<open>Evaluation on the test set: get_metric_scores\<close>

subsection \<open>Float arithmetic of the score tensors\<close>

text \<open>
  Addition and division of floats with the special values: a division by zero gives an
  infinity, or NaN when the numerator is zero as well; NaN is absorbing. A finite result
  is written as the exact number: its rounding to a float32 (and the order in which
  \<open>torch.sum\<close> adds) is not modelled. The results that involve no rounding, those of
  zero, infinite and NaN operands and of a zero divisor, are the ones the theorems on
  the scores rest on.
\<close>

fun fadd :: "fval \<Rightarrow> fval \<Rightarrow> fval" where
  "fadd NaN y = NaN"
| "fadd x NaN = NaN"
| "fadd (Fin a) (Fin b) = Fin (a + b)"
| "fadd (Fin a) y = y"
| "fadd x (Fin b) = x"
| "fadd PosInf PosInf = PosInf"
| "fadd NegInf NegInf = NegInf"
| "fadd PosInf NegInf = NaN"
| "fadd NegInf PosInf = NaN"

fun fdiv :: "fval \<Rightarrow> fval \<Rightarrow> fval" where
  "fdiv NaN y = NaN"
| "fdiv x NaN = NaN"
| "fdiv (Fin a) (Fin b) =
     (if b \<noteq> 0 then Fin (a / b) else if a = 0 then NaN else if 0 < a then PosInf else NegInf)"
| "fdiv (Fin a) y = Fin 0"
| "fdiv PosInf (Fin b) = (if 0 \<le> b then PosInf else NegInf)"
| "fdiv NegInf (Fin b) = (if 0 \<le> b then NegInf else PosInf)"
| "fdiv x y = NaN"

text \<open>\<open>torch.sum(t)\<close> of a one-dimensional tensor.\<close>

definition torch_sum :: "fval list \<Rightarrow> fval" where
  "torch_sum t = foldr fadd t (Fin 0)"

text \<open>\<open>a / b\<close> for two one-dimensional tensors of the same length: element by element.\<close>

definition tensor_div :: "fval list \<Rightarrow> fval list \<Rightarrow> error + fval list" where
  "tensor_div a b =
     (if length a = length b then Inr (map2 fdiv a b)
      else Inl (RuntimeError ''The size of tensor a must match the size of tensor b''))"

text \<open>\<open>t / n\<close> for a tensor and a Python integer.\<close>

definition tensor_div_int :: "fval list \<Rightarrow> int \<Rightarrow> fval list" where
  "tensor_div_int t n = map (\<lambda>x. fdiv x (Fin (of_int n))) t"

subsection \<open>State of the evaluation loop\<close>

text \<open>
  The three running sums of \<open>obj_detector_scores\<close> (each a tensor of 29 floats), and the
  dictionary after finalization, which holds the four averages as well.
\<close>

record detector_sums =
  sum_intersection_area_per_region :: "fval list"
  sum_union_area_per_region :: "fval list"
  sum_region_detected :: "fval list"

record detector_scores = detector_sums +
  avg_iou :: fval
  avg_iou_per_region :: "fval list"
  avg_num_detected_regions_per_image :: fval
  avg_detections_per_region :: "fval list"

text \<open>One batch of the test loader.\<close>

record batch =
  batch_images :: "image list"
  batch_image_targets :: "image_target list"
  batch_region_has_sentence :: mask
  batch_region_is_abnormal :: mask
  batch_input_ids :: token_rows
  batch_attention_mask :: attention_rows

text \<open>
  What \<open>get_metric_scores\<close> imports: the torchmetrics objects (of a type \<open>'m\<close> left
  open; \<open>compute\<close> gives the score of every class) and the three update functions
  of \<open>evaluate_model\<close>, which take the running scores and return them updated. They
  receive the components of the model's result as they come out of the tuple.
\<close>

record 'm evaluation_env =
  new_precision :: 'm
  new_recall :: 'm
  new_f1 :: 'm
  compute :: "'m \<Rightarrow> error + fval list"
  update_object_detector_metrics ::
    "detector_sums \<Rightarrow> component \<Rightarrow> image_target list \<Rightarrow> component \<Rightarrow> error + detector_sums"
  update_region_selection_metrics ::
    "(string \<times> (string \<times> 'm) list) list \<Rightarrow> component \<Rightarrow> mask \<Rightarrow> mask
       \<Rightarrow> error + (string \<times> (string \<times> 'm) list) list"
  update_region_abnormal_metrics ::
    "(string \<times> 'm) list \<Rightarrow> component \<Rightarrow> mask \<Rightarrow> component \<Rightarrow> error + (string \<times> 'm) list"

text \<open>
  The variables of \<open>get_metric_scores\<close> that live across iterations of its loop.
  \<open>model_output\<close> is the variable \<open>output\<close>, unbound (\<open>None\<close>) until the model
  has returned once.
\<close>

record 'm evaluation_state =
  obj_detector_scores :: detector_sums
  region_selection_scores :: "(string \<times> (string \<times> 'm) list) list"
  region_abnormal_scores :: "(string \<times> 'm) list"
  oom :: bool
  num_images :: int
  model_output :: "py_result option"

definition initial_state :: "'m evaluation_env \<Rightarrow> 'm evaluation_state" where
  "initial_state env =
     \<lparr>obj_detector_scores =
        \<lparr>sum_intersection_area_per_region = replicate 29 (Fin 0),
         sum_union_area_per_region = replicate 29 (Fin 0),
         sum_region_detected = replicate 29 (Fin 0)\<rparr>,
      region_selection_scores =
        map (\<lambda>subset_name. (subset_name, [(''precision'', new_precision env), (''recall'', new_recall env),
                                 (''f1'', new_f1 env)]))
            [''all'', ''normal'', ''abnormal''],
      region_abnormal_scores =
        [(''precision'', new_precision env), (''recall'', new_recall env), (''f1'', new_f1 env)],
      oom = False,
      num_images = 0,
      model_output = None\<rparr>"

text \<open>\<open>needle in hay\<close> for two strings.\<close>

fun str_contains :: "string \<Rightarrow> string \<Rightarrow> bool" where
  "str_contains needle [] = (needle = [])"
| "str_contains needle (c # cs) = (prefix needle (c # cs) \<or> str_contains needle cs)"

subsection \<open>The loop\<close>

text \<open>
  The \<open>try\<close> statement around the model call. A \<open>RuntimeError\<close> is caught; when its
  message contains "out of memory" the handler sets \<open>oom\<close>, prints and raises the
  exception again, otherwise it ends without doing anything and \<open>output\<close> keeps the
  value it had. Every other exception passes through.
\<close>

definition call_model ::
  "report_generation_model \<Rightarrow> 'm evaluation_state \<Rightarrow> batch \<Rightarrow> error + 'm evaluation_state" where
  "call_model model s b =
     (case snd (forward model (batch_images b) (batch_image_targets b) (batch_input_ids b)
                  (batch_attention_mask b) (batch_region_has_sentence b)
                  (batch_region_is_abnormal b) True None None False) of
        Inr out \<Rightarrow> Inr (s\<lparr>model_output := Some out\<rparr>)
      | Inl (RuntimeError msg) \<Rightarrow>
          if str_contains ''out of memory'' msg then Inl (RuntimeError msg) else Inr s
      | Inl e \<Rightarrow> Inl e)"

text \<open>
  One iteration of the loop over the test loader: the state after the iteration (also when
  it ends with \<open>continue\<close>), or the exception that leaves the loop.
\<close>

definition get_metric_scores_body ::
  "'m evaluation_env \<Rightarrow> report_generation_model \<Rightarrow> 'm evaluation_state \<Rightarrow> batch
     \<Rightarrow> error + 'm evaluation_state" where
  "get_metric_scores_body env model s0 b =
     (let batch_size = int (length (batch_images b));
          s1 = s0\<lparr>num_images := num_images s0 + batch_size\<rparr>
      in
      (case call_model model s1 b of
         Inl e \<Rightarrow> Inl e
       | Inr s \<Rightarrow>
      if oom s then Inr (s\<lparr>oom := False, num_images := num_images s - batch_size\<rparr>)
      else
      (case model_output s of
         None \<Rightarrow>
           Inl (UnboundLocalError ''local variable output referenced before assignment'')
       | Some out \<Rightarrow>
      if out = PyInt (- 1) then Inr (s\<lparr>num_images := num_images s - batch_size\<rparr>)
      else
      (case out of
         PyInt n \<Rightarrow> Inl (TypeError ''cannot unpack non-iterable int object'')
       | PyTuple xs \<Rightarrow>
      if length xs < 8 then Inl (ValueError ''not enough values to unpack (expected 8)'')
      else if 8 < length xs then Inl (ValueError ''too many values to unpack (expected 8)'')
      else
      (let detections = xs ! 4;
           class_detected = xs ! 5;
           selected_regions = xs ! 6;
           predicted_abnormal_regions = xs ! 7
       in
       (case update_object_detector_metrics env (obj_detector_scores s) detections
               (batch_image_targets b) class_detected of
          Inl e \<Rightarrow> Inl e
        | Inr od \<Rightarrow>
       (case update_region_selection_metrics env (region_selection_scores s) selected_regions
               (batch_region_has_sentence b) (batch_region_is_abnormal b) of
          Inl e \<Rightarrow> Inl e
        | Inr rs \<Rightarrow>
       (case update_region_abnormal_metrics env (region_abnormal_scores s)
               predicted_abnormal_regions (batch_region_is_abnormal b) class_detected of
          Inl e \<Rightarrow> Inl e
        | Inr ra \<Rightarrow>
            Inr (s\<lparr>obj_detector_scores := od, region_selection_scores := rs,
                   region_abnormal_scores := ra\<rparr>)))))))))"

fun get_metric_scores_loop ::
  "'m evaluation_env \<Rightarrow> report_generation_model \<Rightarrow> 'm evaluation_state \<Rightarrow> batch list
     \<Rightarrow> error + 'm evaluation_state" where
  "get_metric_scores_loop env model s [] = Inr s"
| "get_metric_scores_loop env model s (b # test_loader) =
     (case get_metric_scores_body env model s b of
        Inl e \<Rightarrow> Inl e
      | Inr s' \<Rightarrow> get_metric_scores_loop env model s' test_loader)"

subsection \<open>Finalization\<close>

text \<open>The object detector scores: the four averages are computed from the running sums.\<close>

definition compute_obj_detector_scores :: "detector_sums \<Rightarrow> int \<Rightarrow> error + detector_scores" where
  "compute_obj_detector_scores scores n =
     (let sum_intersection = sum_intersection_area_per_region scores;
          sum_union = sum_union_area_per_region scores;
          detected = sum_region_detected scores
      in
      (case tensor_div sum_intersection sum_union of
         Inl e \<Rightarrow> Inl e
       | Inr iou_per_region \<Rightarrow>
           Inr \<lparr>sum_intersection_area_per_region = sum_intersection,
                sum_union_area_per_region = sum_union,
                sum_region_detected = detected,
                avg_iou = fdiv (torch_sum sum_intersection) (torch_sum sum_union),
                avg_iou_per_region = iou_per_region,
                avg_num_detected_regions_per_image = torch_sum (tensor_div_int detected n),
                avg_detections_per_region = tensor_div_int detected n\<rparr>))"

text \<open>\<open>score.compute()[1].item()\<close>: the score of the positive class.\<close>

definition compute_positive :: "'m evaluation_env \<Rightarrow> 'm \<Rightarrow> error + fval" where
  "compute_positive env score =
     (case compute env score of
        Inl e \<Rightarrow> Inl e
      | Inr t \<Rightarrow> if 1 < length t then Inr (t ! 1)
                else Inl (IndexError ''index 1 is out of bounds''))"

fun compute_metrics ::
  "'m evaluation_env \<Rightarrow> (string \<times> 'm) list \<Rightarrow> error + (string \<times> fval) list" where
  "compute_metrics env [] = Inr []"
| "compute_metrics env ((metric, score) # rest) =
     (case compute_positive env score of
        Inl e \<Rightarrow> Inl e
      | Inr v \<Rightarrow>
          (case compute_metrics env rest of
             Inl e \<Rightarrow> Inl e
           | Inr vs \<Rightarrow> Inr ((metric, v) # vs)))"

fun compute_subsets ::
  "'m evaluation_env \<Rightarrow> (string \<times> (string \<times> 'm) list) list
     \<Rightarrow> error + (string \<times> (string \<times> fval) list) list" where
  "compute_subsets env [] = Inr []"
| "compute_subsets env ((subset_name, metrics) # rest) =
     (case compute_metrics env metrics of
        Inl e \<Rightarrow> Inl e
      | Inr vs \<Rightarrow>
          (case compute_subsets env rest of
             Inl e \<Rightarrow> Inl e
           | Inr vss \<Rightarrow> Inr ((subset_name, vs) # vss)))"

text \<open>\<open>get_metric_scores\<close>: the loop over the test loader, then the finalization.\<close>

definition get_metric_scores ::
  "'m evaluation_env \<Rightarrow> report_generation_model \<Rightarrow> batch list
     \<Rightarrow> error + (detector_scores \<times> (string \<times> (string \<times> fval) list) list
                  \<times> (string \<times> fval) list)" where
  "get_metric_scores env model test_loader =
     (case get_metric_scores_loop env model (initial_state env) test_loader of
        Inl e \<Rightarrow> Inl e
      | Inr s \<Rightarrow>
     (case compute_obj_detector_scores (obj_detector_scores s) (num_images s) of
        Inl e \<Rightarrow> Inl e
      | Inr obj_scores \<Rightarrow>
     (case compute_subsets env (region_selection_scores s) of
        Inl e \<Rightarrow> Inl e
      | Inr selection_scores \<Rightarrow>
     (case compute_metrics env (region_abnormal_scores s) of
        Inl e \<Rightarrow> Inl e
      | Inr abnormal_scores \<Rightarrow> Inr (obj_scores, selection_scores, abnormal_scores)))))"

section \<open>Example inputs\<close>

text \<open>
  A batch of two images. The detector finds regions 3 and 7 of the first image and region
  0 of the second; region 3 of the first image and every region of the second have a
  ground-truth sentence. Row \<open>k\<close> of \<open>example_input_ids\<close> holds the token \<open>k\<close>, and the
  feature vector of region \<open>r\<close> of image \<open>i\<close> holds \<open>100 * i + r\<close>.
\<close>

definition example_detected :: mask where
  "example_detected =
     [(replicate 29 False)[3 := True, 7 := True], (replicate 29 False)[0 := True]]"

definition example_has_sentence :: mask where
  "example_has_sentence = [(replicate 29 False)[3 := True], replicate 29 True]"

definition example_valid :: mask where
  "example_valid = [(replicate 29 False)[3 := True], (replicate 29 False)[0 := True]]"

definition example_input_ids :: token_rows where
  "example_input_ids = map (\<lambda>k. [int k]) [0..<58]"

definition example_attention_mask :: attention_rows where
  "example_attention_mask = replicate 58 [Fin 1]"

definition example_features :: "feature list list" where
  "example_features = map (\<lambda>i. map (\<lambda>r. [Fin (of_nat (100 * i + r))]) [0..<29]) [0..<2]"

text \<open>
  A model for the examples. Its object detector returns \<open>example_detected\<close> and
  \<open>example_features\<close>; its classifier is the specification's selector with a prediction
  that accepts every slot, so it selects what was detected; its language model returns a
  loss of one.
\<close>

definition example_object_detector ::
  "bool \<Rightarrow> image list \<Rightarrow> image_target list option \<Rightarrow> error + detector_output" where
  "example_object_detector is_training images image_targets =
     Inr \<lparr>det_loss_dict = [(''loss_classifier'', Fin 2)], det_detections = [],
          det_top_region_features = example_features, det_class_detected = example_detected\<rparr>"

definition example_language_model ::
  "token_rows \<Rightarrow> attention_rows \<Rightarrow> feature list \<Rightarrow> bool \<Rightarrow> fval list list option
     \<Rightarrow> int list list option \<Rightarrow> bool \<Rightarrow> error + fval" where
  "example_language_model input_ids attention_mask region_features return_loss
       past_key_values position_ids use_cache = Inr (Fin 1)"

definition example_language_model_generate ::
  "feature list \<Rightarrow> int option \<Rightarrow> int \<Rightarrow> int \<Rightarrow> bool \<Rightarrow> int \<Rightarrow> bool \<Rightarrow> error + token_rows" where
  "example_language_model_generate region_features max_length num_beams num_beam_groups
       do_sample num_return_sequences early_stopping = Inr (map (\<lambda>f. [0]) region_features)"

definition example_model :: report_generation_model where
  "example_model =
     \<lparr>training = False,
      pretrain_without_lm_model = False,
      object_detector = example_object_detector,
      binary_classifier_region_selection =
        select (\<lambda>features. map (\<lambda>row. map (\<lambda>f. True) row) features) (\<lambda>features gt. Fin 3),
      language_model = example_language_model,
      language_model_generate = example_language_model_generate\<rparr>"

text \<open>Ground truth without any sentence, and one image of the batch.\<close>

definition example_no_sentence :: mask where
  "example_no_sentence = replicate 2 (replicate 29 False)"

definition example_images :: "image list" where
  "example_images = [[[Fin 0]], [[Fin 1]]]"

definition example_targets :: "image_target list" where
  "example_targets = [\<lparr>boxes = [], labels = []\<rparr>, \<lparr>boxes = [], labels = []\<rparr>]"

text \<open>What the example object detector and the example classifier return.\<close>

definition example_detector_output :: detector_output where
  "example_detector_output =
     \<lparr>det_loss_dict = [(''loss_classifier'', Fin 2)], det_detections = [],
      det_top_region_features = example_features, det_class_detected = example_detected\<rparr>"

definition example_selector_output :: selector_output where
  "example_selector_output =
     \<lparr>sel_loss = Fin 3, sel_selected_regions = example_detected,
      sel_selected_region_features = [[Fin 3], [Fin 7], [Fin 100]]\<rparr>"

text \<open>
  An evaluation environment whose metric objects are counters that the update functions
  leave alone, the example batch, a model whose classifier selects nothing, and a model
  whose object detector runs out of memory.
\<close>

definition example_env :: "nat evaluation_env" where
  "example_env =
     \<lparr>new_precision = 0, new_recall = 0, new_f1 = 0,
      compute = (\<lambda>score. Inr [Fin 0, Fin 0]),
      update_object_detector_metrics = (\<lambda>scores detections image_targets class_detected. Inr scores),
      update_region_selection_metrics =
        (\<lambda>scores selected_regions region_has_sentence region_is_abnormal. Inr scores),
      update_region_abnormal_metrics =
        (\<lambda>scores predicted_abnormal_regions region_is_abnormal class_detected. Inr scores)\<rparr>"

definition example_batch :: batch where
  "example_batch =
     \<lparr>batch_images = example_images, batch_image_targets = example_targets,
      batch_region_has_sentence = example_has_sentence,
      batch_region_is_abnormal = example_no_sentence,
      batch_input_ids = example_input_ids, batch_attention_mask = example_attention_mask\<rparr>"

definition example_model_selecting_nothing :: report_generation_model where
  "example_model_selecting_nothing =
     example_model
       \<lparr>binary_classifier_region_selection :=
          select (\<lambda>features. map (\<lambda>row. map (\<lambda>f. False) row) features) (\<lambda>features gt. Fin 3)\<rparr>"

definition example_model_out_of_memory :: report_generation_model where
  "example_model_out_of_memory =
     example_model
       \<lparr>object_detector :=
          (\<lambda>is_training images image_targets.
             Inl (RuntimeError ''CUDA out of memory. Tried to allocate 20.00 MiB''))\<rparr>"

text \<open>
  Running sums in which only the first two regions were ever seen: region 0 with
  intersection 3 and union 6 in two images, region 1 with intersection 1 and union 1 in
  one image.
\<close>

definition example_sums :: detector_sums where
  "example_sums =
     \<lparr>sum_intersection_area_per_region = (replicate 29 (Fin 0))[0 := Fin 3, 1 := Fin 1],
      sum_union_area_per_region = (replicate 29 (Fin 0))[0 := Fin 6, 1 := Fin 1],
      sum_region_detected = (replicate 29 (Fin 0))[0 := Fin 2, 1 := Fin 1]\<rparr>"


section \<open>Boolean indexing selects the true positions in row-major order\<close>

lemma select_by_index:
  "length xs = length bs \<Longrightarrow>
     map fst (filter snd (zip xs bs)) = map ((!) xs) (filter ((!) bs) [0..<length bs])"
proof (induction bs arbitrary: xs rule: rev_induct)
  case Nil
  then show ?case by simp
next
  case (snoc b bs)
  then obtain ys y where xs: "xs = ys @ [y]" and len: "length ys = length bs"
    by (cases xs rule: rev_cases) auto
  have old: "filter ((!) (bs @ [b])) [0..<length bs] = filter ((!) bs) [0..<length bs]"
    by (rule filter_cong) (auto simp: nth_append)
  have keep: "map ((!) (ys @ [y])) (filter ((!) bs) [0..<length bs])
                = map ((!) ys) (filter ((!) bs) [0..<length bs])"
    by (rule map_cong) (auto simp: nth_append len)
  have last_b: "(bs @ [b]) ! length bs = b" and last_y: "(ys @ [y]) ! length bs = y"
    using len by (simp_all add: nth_append)
  have "map fst (filter snd (zip xs (bs @ [b])))
          = map fst (filter snd (zip ys bs)) @ (if b then [y] else [])"
    using len by (simp add: xs)
  moreover have "map ((!) xs) (filter ((!) (bs @ [b])) [0..<length (bs @ [b])])
          = map ((!) ys) (filter ((!) bs) [0..<length bs]) @ (if b then [y] else [])"
    unfolding xs by (simp only: length_append_singleton upt_Suc_append le0 filter_append
        map_append old keep filter.simps last_b last_y if_True list.map split: if_splits)
      simp
  ultimately show ?case
    using snoc.IH [OF len] by simp
qed

lemma upt_shift: "[k..<k + R] = map (\<lambda>r. k + r) [0..<R]"
  by (induction R) simp_all

lemma upt_row_major:
  "[0..<N * R] = concat (map (\<lambda>i. map (\<lambda>r. i * R + r) [0..<R]) [0..<N])"
proof (induction N)
  case 0
  then show ?case by simp
next
  case (Suc N)
  have "Suc N * R = N * R + R" by simp
  then have "[0..<Suc N * R] = [0..<N * R] @ [N * R..<N * R + R]"
    by (simp only: upt_add_eq_append [OF le0])
  then show ?case using Suc.IH by (simp only: upt_shift upt_Suc_append le0 map_append concat_append list.map concat.simps append_Nil2 if_True)
qed

lemma nth_concat_rect:
  "\<forall>row\<in>set M. length row = R \<Longrightarrow> i < length M \<Longrightarrow> r < R \<Longrightarrow>
     concat M ! (i * R + r) = M ! i ! r"
proof (induction M arbitrary: i)
  case Nil
  then show ?case by simp
next
  case (Cons row M)
  show ?case
  proof (cases i)
    case 0
    with Cons.prems show ?thesis by (simp add: nth_append)
  next
    case (Suc j)
    with Cons.prems have "concat M ! (j * R + r) = M ! j ! r"
      by (intro Cons.IH) auto
    moreover have "Suc j * R + r = length row + (j * R + r)"
      using Cons.prems by simp
    ultimately show ?thesis using Suc by (simp only: concat.simps nth_append_length_plus nth_Cons_Suc)
  qed
qed

lemma length_concat_rect:
  "\<forall>row\<in>set M. length row = R \<Longrightarrow> length (concat M) = length M * R"
  by (induction M) auto

lemma flat_true_indices:
  assumes rect: "\<forall>row\<in>set M. length row = R"
  shows "filter ((!) (concat M)) [0..<length M * R]
           = map (\<lambda>(i, r). i * R + r) (true_positions M)"
proof -
  have row: "filter ((!) (concat M)) (map (\<lambda>r. i * R + r) [0..<R])
               = map (\<lambda>(i, r). i * R + r)
                   (map (Pair i) (filter (\<lambda>r. M ! i ! r) [0..<length (M ! i)]))"
    if "i < length M" for i
  proof -
    have len: "length (M ! i) = R" using rect that by simp
    have "filter ((!) (concat M) \<circ> (\<lambda>r. i * R + r)) [0..<R] = filter (\<lambda>r. M ! i ! r) [0..<R]"
      by (rule filter_cong) (auto simp: nth_concat_rect [OF rect that])
    then show ?thesis by (simp add: filter_map len comp_def)
  qed
  have "filter ((!) (concat M)) [0..<length M * R]
          = concat (map (\<lambda>i. filter ((!) (concat M)) (map (\<lambda>r. i * R + r) [0..<R]))
                        [0..<length M])"
    by (simp add: upt_row_major filter_concat comp_def)
  also have "\<dots> = concat (map (\<lambda>i. map (\<lambda>(i, r). i * R + r)
                       (map (Pair i) (filter (\<lambda>r. M ! i ! r) [0..<length (M ! i)])))
                     [0..<length M])"
    by (rule arg_cong [where f = concat], rule map_cong) (auto simp: row)
  also have "\<dots> = map (\<lambda>(i, r). i * R + r) (true_positions M)"
    by (simp add: true_positions_def map_concat comp_def)
  finally show ?thesis .
qed

lemma getitem_mask_positions:
  assumes rect: "\<forall>row\<in>set M. length row = R"
    and len: "length t = length M * R"
  shows "getitem_mask t (reshape_flat M)
           = Inr (map (\<lambda>(i, r). t ! (i * R + r)) (true_positions M))"
proof -
  have lc: "length (concat M) = length t"
    using length_concat_rect [OF rect] len by simp
  have "map fst (filter snd (zip t (concat M)))
          = map ((!) t) (filter ((!) (concat M)) [0..<length M * R])"
    using select_by_index [of t "concat M"] lc len by simp
  also have "\<dots> = map (\<lambda>(i, r). t ! (i * R + r)) (true_positions M)"
    by (simp add: flat_true_indices [OF rect] comp_def case_prod_unfold)
  finally show ?thesis
    by (simp add: getitem_mask_def reshape_flat_def lc)
qed

lemma getitem_mask2_positions:
  assumes shape: "map length t = map length M"
  shows "getitem_mask2 t M = Inr (map (\<lambda>(i, r). t ! i ! r) (true_positions M))"
proof -
  have n: "length t = length M"
    using shape by (metis length_map)
  have rowlen: "length (t ! i) = length (M ! i)" if "i < length M" for i
    using shape that n by (metis nth_map)
  have "map2 (\<lambda>row mrow. map fst (filter snd (zip row mrow))) t M
          = map (\<lambda>i. map fst (filter snd (zip (t ! i) (M ! i)))) [0..<length M]"
    by (rule nth_equalityI) (auto simp: n)
  also have "\<dots> = map (\<lambda>i. map ((!) (t ! i)) (filter ((!) (M ! i)) [0..<length (M ! i)]))
                     [0..<length M]"
    by (rule map_cong) (auto simp: select_by_index rowlen)
  finally have "concat (map2 (\<lambda>row mrow. map fst (filter snd (zip row mrow))) t M)
          = map (\<lambda>(i, r). t ! i ! r) (true_positions M)"
    by (simp add: true_positions_def map_concat comp_def)
  then show ?thesis
    by (simp add: getitem_mask2_def shape)
qed

section \<open>The training mask is the logical AND of the two masks\<close>

lemma map2_by_index:
  "length xs = length ys \<Longrightarrow> map2 f xs ys = map (\<lambda>i. f (xs ! i) (ys ! i)) [0..<length xs]"
  by (rule nth_equalityI) auto

lemma logical_and_training_mask:
  assumes shape: "map length a = map length b"
  shows "logical_and a b = Inr (training_mask a b)"
proof -
  have n: "length a = length b"
    using shape by (metis length_map)
  have rowlen: "length (a ! i) = length (b ! i)" if "i < length a" for i
    using shape that n by (metis nth_map)
  have "map2 (\<lambda>ra rb. map2 (\<lambda>x y. x \<and> y) ra rb) a b
          = map (\<lambda>i. map2 (\<lambda>x y. x \<and> y) (a ! i) (b ! i)) [0..<length a]"
    by (rule map2_by_index [OF n])
  also have "\<dots> = training_mask a b"
    unfolding training_mask_def
    by (rule map_cong) (auto simp: map2_by_index rowlen)
  finally show ?thesis
    by (simp add: logical_and_def shape)
qed

lemma map_length_training_mask: "map length (training_mask a b) = map length a"
  by (rule nth_equalityI) (auto simp: training_mask_def)

section \<open>Alignment of the compacted sequences\<close>

text \<open>
  C2. For every N-by-29 boolean mask \<open>M\<close> (in training it is the result of
  \<open>torch.logical_and\<close>; in evaluation the mask passed in) and every dense batch of the
  matching shapes, the rows of \<open>input_ids\<close> and \<open>attention_mask\<close> selected by the
  flattened mask and the entries of the feature tensor selected by the two-dimensional
  mask are those at the true positions of \<open>M\<close> in row-major order: position \<open>k\<close> of
  each compacted sequence comes from the same image \<open>i\<close> and region \<open>r\<close>, the
  \<open>k\<close>-th true position of \<open>M\<close> (row \<open>i * 29 + r\<close> of the flattened token tensors).
\<close>

theorem compaction_row_major:
  assumes "logical_and class_detected region_has_sentence = Inr M"
    and "\<forall>row\<in>set M. length row = 29"
    and "length input_ids = length M * 29"
    and "length attention_mask = length M * 29"
    and "map length region_features = map length M"
  shows "get_valid_decoder_input_for_training class_detected region_has_sentence input_ids
             attention_mask region_features
           = Inr (map (\<lambda>(i, r). input_ids ! (i * 29 + r)) (true_positions M),
                  map (\<lambda>(i, r). attention_mask ! (i * 29 + r)) (true_positions M),
                  map (\<lambda>(i, r). region_features ! i ! r) (true_positions M))
         \<and> get_valid_decoder_input_for_evaluation M input_ids attention_mask
           = Inr (map (\<lambda>(i, r). input_ids ! (i * 29 + r)) (true_positions M),
                  map (\<lambda>(i, r). attention_mask ! (i * 29 + r)) (true_positions M))"
proof -
  have ids: "getitem_mask input_ids (reshape_flat M)
               = Inr (map (\<lambda>(i, r). input_ids ! (i * 29 + r)) (true_positions M))"
    using assms(2,3) by (rule getitem_mask_positions)
  have am: "getitem_mask attention_mask (reshape_flat M)
              = Inr (map (\<lambda>(i, r). attention_mask ! (i * 29 + r)) (true_positions M))"
    using assms(2,4) by (rule getitem_mask_positions)
  have feats: "getitem_mask2 region_features M
                 = Inr (map (\<lambda>(i, r). region_features ! i ! r) (true_positions M))"
    using assms(5) by (rule getitem_mask2_positions)
  show ?thesis
    by (simp add: get_valid_decoder_input_for_training_def
        get_valid_decoder_input_for_evaluation_def Let_def assms(1) ids am feats)
qed

lemma example_valid_and:
  "logical_and example_detected example_has_sentence = Inr example_valid"
  by code_simp

lemma example_valid_rows: "\<forall>row\<in>set example_valid. length row = 29"
  by code_simp

lemma example_input_ids_length: "length example_input_ids = length example_valid * 29"
  by code_simp

lemma example_attention_mask_length:
  "length example_attention_mask = length example_valid * 29"
  by code_simp

lemma example_features_shape: "map length example_features = map length example_valid"
  by code_simp

lemma example_valid_positions: "true_positions example_valid = [(0, 3), (1, 0)]"
  by code_simp

lemma example_input_ids_at:
  "map (\<lambda>(i, r). example_input_ids ! (i * 29 + r)) [(0, 3), (1, 0)] = [[3], [29]]"
  by code_simp

lemma example_attention_mask_at:
  "map (\<lambda>(i, r). example_attention_mask ! (i * 29 + r)) [(0, 3), (1, 0)]
     = [[Fin 1], [Fin 1]]"
  by code_simp

lemma example_features_at:
  "map (\<lambda>(i, r). example_features ! i ! r) [(0, 3), (1, 0)] = [[Fin 3], [Fin 100]]"
  by code_simp

theorem compaction_row_major_witness:
  "get_valid_decoder_input_for_training example_detected example_has_sentence
       example_input_ids example_attention_mask example_features
     = Inr ([[3], [29]], [[Fin 1], [Fin 1]], [[Fin 3], [Fin 100]])
   \<and> get_valid_decoder_input_for_evaluation example_valid example_input_ids
       example_attention_mask
     = Inr ([[3], [29]], [[Fin 1], [Fin 1]])"
  using compaction_row_major [OF example_valid_and example_valid_rows
      example_input_ids_length example_attention_mask_length example_features_shape]
  by (simp only: example_valid_positions example_input_ids_at example_attention_mask_at
      example_features_at)

section \<open>The decoder inputs, by position\<close>

lemma training_mask_rows:
  assumes "map length a = map length b" "\<forall>row\<in>set b. length row = R"
  shows "\<forall>row\<in>set (training_mask a b). length row = R"
proof -
  have "map length (training_mask a b) = map length b"
    using assms(1) map_length_training_mask [of a b] by simp
  then have "set (map length (training_mask a b)) = set (map length b)" by simp
  then show ?thesis using assms(2) by (auto simp: image_iff)
qed

lemma length_training_mask: "length (training_mask a b) = length a"
  by (simp add: training_mask_def)

lemma training_inputs_at_positions:
  assumes shape: "map length class_detected = map length region_has_sentence"
    and rows: "\<forall>row\<in>set region_has_sentence. length row = R"
    and ids: "length input_ids = length region_has_sentence * R"
    and am: "length attention_mask = length region_has_sentence * R"
    and feats: "map length region_features = map length region_has_sentence"
  shows "get_valid_decoder_input_for_training class_detected region_has_sentence input_ids
             attention_mask region_features
           = Inr (map (\<lambda>(i, r). input_ids ! (i * R + r))
                      (true_positions (training_mask class_detected region_has_sentence)),
                  map (\<lambda>(i, r). attention_mask ! (i * R + r))
                      (true_positions (training_mask class_detected region_has_sentence)),
                  map (\<lambda>(i, r). region_features ! i ! r)
                      (true_positions (training_mask class_detected region_has_sentence)))"
proof -
  let ?M = "training_mask class_detected region_has_sentence"
  have n: "length ?M = length region_has_sentence"
    using shape by (metis length_training_mask length_map)
  have mrows: "\<forall>row\<in>set ?M. length row = R"
    using shape rows by (rule training_mask_rows)
  have mshape: "map length region_features = map length ?M"
    using feats shape by (simp add: map_length_training_mask)
  have a: "getitem_mask input_ids (reshape_flat ?M)
             = Inr (map (\<lambda>(i, r). input_ids ! (i * R + r)) (true_positions ?M))"
    using mrows ids n by (intro getitem_mask_positions) simp_all
  have b: "getitem_mask attention_mask (reshape_flat ?M)
             = Inr (map (\<lambda>(i, r). attention_mask ! (i * R + r)) (true_positions ?M))"
    using mrows am n by (intro getitem_mask_positions) simp_all
  have c: "getitem_mask2 region_features ?M
             = Inr (map (\<lambda>(i, r). region_features ! i ! r) (true_positions ?M))"
    using mshape by (rule getitem_mask2_positions)
  show ?thesis
    by (simp add: get_valid_decoder_input_for_training_def Let_def
        logical_and_training_mask [OF shape] a b c)
qed

lemma evaluation_inputs_at_positions:
  assumes rows: "\<forall>row\<in>set selected_regions. length row = R"
    and ids: "length input_ids = length selected_regions * R"
    and am: "length attention_mask = length selected_regions * R"
  shows "get_valid_decoder_input_for_evaluation selected_regions input_ids attention_mask
           = Inr (map (\<lambda>(i, r). input_ids ! (i * R + r)) (true_positions selected_regions),
                  map (\<lambda>(i, r). attention_mask ! (i * R + r))
                      (true_positions selected_regions))"
  by (simp add: get_valid_decoder_input_for_evaluation_def Let_def
      getitem_mask_positions [OF rows ids] getitem_mask_positions [OF rows am])

section \<open>What forward passes to the language model\<close>

text \<open>
  C3. In training mode (with the language model in use), whenever the object detector and
  the classifier return and the tensors have their documented shapes, the language model
  is called (if at all) with the rows of \<open>input_ids\<close> and \<open>attention_mask\<close> and the
  region features at exactly the true positions of the specification's training mask, the
  element-wise AND of \<open>class_detected\<close> and \<open>region_has_sentence\<close>. The classifier's
  result \<open>sel\<close> is arbitrary and does not occur in the call: no other condition, in
  particular not the selector's prediction, takes part.
\<close>

theorem training_mask_is_logical_and:
  assumes mode: "training m" "\<not> pretrain_without_lm_model m"
    and det: "object_detector m True images (Some image_targets) = Inr det"
    and sel: "binary_classifier_region_selection m True (det_top_region_features det)
                (det_class_detected det) True (Some region_has_sentence) = Inr sel"
    and shape: "map length (det_class_detected det) = map length region_has_sentence"
    and rows: "\<forall>row\<in>set region_has_sentence. length row = 29"
    and ids: "length input_ids = length region_has_sentence * 29"
    and am: "length attention_mask = length region_has_sentence * 29"
    and feats: "map length (det_top_region_features det) = map length region_has_sentence"
  shows "fst (forward m images image_targets input_ids attention_mask region_has_sentence
                region_is_abnormal return_loss past_key_values position_ids use_cache)
           = [ObjectDetectorCall, RegionSelectionCall] @
             (if true_positions (training_mask (det_class_detected det) region_has_sentence) = []
              then []
              else [LanguageModelCall
                      (map (\<lambda>(i, r). input_ids ! (i * 29 + r))
                         (true_positions (training_mask (det_class_detected det)
                            region_has_sentence)))
                      (map (\<lambda>(i, r). attention_mask ! (i * 29 + r))
                         (true_positions (training_mask (det_class_detected det)
                            region_has_sentence)))
                      (map (\<lambda>(i, r). det_top_region_features det ! i ! r)
                         (true_positions (training_mask (det_class_detected det)
                            region_has_sentence)))])"
  using mode
  by (simp add: forward_def det sel
      training_inputs_at_positions [OF shape rows ids am feats] split: sum.splits)

lemma example_detector_returns:
  "object_detector (example_model\<lparr>training := t, pretrain_without_lm_model := p\<rparr>) is_training
       images image_targets = Inr example_detector_output"
  by (simp add: example_model_def example_object_detector_def example_detector_output_def)

lemma example_selector_returns:
  "binary_classifier_region_selection
       (example_model\<lparr>training := t, pretrain_without_lm_model := p\<rparr>) is_training
       example_features example_detected return_loss gt = Inr example_selector_output"
proof -
  have "select (\<lambda>features. map (\<lambda>row. map (\<lambda>f. True) row) features) (\<lambda>features gt. Fin 3)
          is_training example_features example_detected return_loss gt
        = Inr example_selector_output"
    by code_simp
  then show ?thesis by (simp add: example_model_def)
qed

lemma example_detector_output_fields:
  "det_top_region_features example_detector_output = example_features"
  "det_class_detected example_detector_output = example_detected"
  "det_loss_dict example_detector_output = [(''loss_classifier'', Fin 2)]"
  "det_detections example_detector_output = []"
  by (simp_all add: example_detector_output_def)

lemma example_selector_output_fields:
  "sel_loss example_selector_output = Fin 3"
  "sel_selected_regions example_selector_output = example_detected"
  "sel_selected_region_features example_selector_output = [[Fin 3], [Fin 7], [Fin 100]]"
  by (simp_all add: example_selector_output_def)

lemma example_detected_shape: "map length example_detected = map length example_has_sentence"
  by code_simp

lemma example_has_sentence_rows: "\<forall>row\<in>set example_has_sentence. length row = 29"
  by code_simp

lemma example_lengths:
  "length example_input_ids = length example_has_sentence * 29"
  "length example_attention_mask = length example_has_sentence * 29"
  "map length example_features = map length example_has_sentence"
  by code_simp+

lemma example_training_mask: "training_mask example_detected example_has_sentence = example_valid"
  by code_simp

theorem training_mask_is_logical_and_witness:
  "fst (forward (example_model\<lparr>training := True, pretrain_without_lm_model := False\<rparr>)
          example_images example_targets example_input_ids example_attention_mask
          example_has_sentence example_no_sentence True None None False)
     = [ObjectDetectorCall, RegionSelectionCall,
        LanguageModelCall [[3], [29]] [[Fin 1], [Fin 1]] [[Fin 3], [Fin 100]]]"
proof -
  let ?m = "example_model\<lparr>training := True, pretrain_without_lm_model := False\<rparr>"
  have mode: "training ?m" "\<not> pretrain_without_lm_model ?m"
    by simp_all
  have det: "object_detector ?m True example_images (Some example_targets)
               = Inr example_detector_output"
    by (rule example_detector_returns)
  have sel: "binary_classifier_region_selection ?m True
               (det_top_region_features example_detector_output)
               (det_class_detected example_detector_output) True (Some example_has_sentence)
               = Inr example_selector_output"
    by (simp only: example_detector_output_fields example_selector_returns)
  have shape: "map length (det_class_detected example_detector_output)
                 = map length example_has_sentence"
    by (simp only: example_detector_output_fields example_detected_shape)
  have feats: "map length (det_top_region_features example_detector_output)
                 = map length example_has_sentence"
    by (simp only: example_detector_output_fields example_lengths)
  show ?thesis
    using training_mask_is_logical_and [OF mode det sel shape example_has_sentence_rows
        example_lengths(1) example_lengths(2) feats,
        of example_no_sentence True None None False]
    by (simp only: example_detector_output_fields example_training_mask
        example_valid_positions example_input_ids_at example_attention_mask_at
        example_features_at) simp
qed

section \<open>The empty-subset short circuit in training mode\<close>

lemma true_positions_empty_iff:
  "true_positions M = [] \<longleftrightarrow> (\<forall>i<length M. \<forall>r<length (M ! i). \<not> M ! i ! r)"
  by (auto simp: true_positions_def filter_empty_conv)

lemma training_mask_no_slot:
  "true_positions (training_mask a b) = []
     \<longleftrightarrow> (\<forall>i<length a. \<forall>r<length (a ! i). \<not> (a ! i ! r \<and> b ! i ! r))"
  by (simp add: true_positions_empty_iff training_mask_def)

text \<open>
  C1 (as amended). In training mode, when the object detector and the classifier return,
  the tensors have their documented shapes and no slot is both detected and marked as
  having a ground-truth sentence, the language model is never called. A model built
  without \<open>pretrain_without_lm_model\<close> then returns the sentinel \<open>-1\<close>, which is no
  tuple; a model built with it returns the pair of the two losses, as it does on every
  batch.
\<close>

theorem empty_training_subset_short_circuit:
  assumes mode: "training m"
    and det: "object_detector m True images (Some image_targets) = Inr det"
    and sel: "binary_classifier_region_selection m True (det_top_region_features det)
                (det_class_detected det) True (Some region_has_sentence) = Inr sel"
    and shape: "map length (det_class_detected det) = map length region_has_sentence"
    and rows: "\<forall>row\<in>set region_has_sentence. length row = 29"
    and ids: "length input_ids = length region_has_sentence * 29"
    and am: "length attention_mask = length region_has_sentence * 29"
    and feats: "map length (det_top_region_features det) = map length region_has_sentence"
    and empty: "\<forall>i<length region_has_sentence. \<forall>r<29.
                  \<not> (det_class_detected det ! i ! r \<and> region_has_sentence ! i ! r)"
  shows "forward m images image_targets input_ids attention_mask region_has_sentence
             region_is_abnormal return_loss past_key_values position_ids use_cache
           = ([ObjectDetectorCall, RegionSelectionCall],
              Inr (if pretrain_without_lm_model m
                   then PyTuple [LossDict (det_loss_dict det), Loss (sel_loss sel)]
                   else PyInt (- 1)))
         \<and> (\<forall>xs. PyInt (- 1) \<noteq> PyTuple xs)"
proof -
  have n: "length (det_class_detected det) = length region_has_sentence"
    using shape by (metis length_map)
  have rowlen: "length (det_class_detected det ! i) = 29" if "i < length region_has_sentence" for i
  proof -
    have "length (det_class_detected det ! i) = length (region_has_sentence ! i)"
      using shape that n by (metis nth_map)
    then show ?thesis using rows that by simp
  qed
  have none: "true_positions (training_mask (det_class_detected det) region_has_sentence) = []"
    using empty by (simp add: training_mask_no_slot n rowlen)
  show ?thesis
    using mode
    by (simp add: forward_def det sel none
        training_inputs_at_positions [OF shape rows ids am feats])
qed


theorem empty_training_subset_counterexample:
  "training (example_model\<lparr>training := True, pretrain_without_lm_model := True\<rparr>)
   \<and> training_mask example_detected example_no_sentence = replicate 2 (replicate 29 False)
   \<and> forward (example_model\<lparr>training := True, pretrain_without_lm_model := True\<rparr>)
       example_images example_targets example_input_ids example_attention_mask
       example_no_sentence example_no_sentence True None None False
     = ([ObjectDetectorCall, RegionSelectionCall],
        Inr (PyTuple [LossDict [(''loss_classifier'', Fin 2)], Loss (Fin 3)]))
   \<and> PyTuple [LossDict [(''loss_classifier'', Fin 2)], Loss (Fin 3)] \<noteq> PyInt (- 1)"
  by code_simp

lemma example_no_sentence_shape:
  "map length example_detected = map length example_no_sentence"
  "\<forall>row\<in>set example_no_sentence. length row = 29"
  "length example_input_ids = length example_no_sentence * 29"
  "length example_attention_mask = length example_no_sentence * 29"
  "map length example_features = map length example_no_sentence"
  by code_simp+

lemma example_no_sentence_nowhere:
  "\<forall>i<length example_no_sentence. \<forall>r<29.
     \<not> (example_detected ! i ! r \<and> example_no_sentence ! i ! r)"
  by (simp add: example_no_sentence_def)

theorem empty_training_subset_short_circuit_witness:
  "forward (example_model\<lparr>training := True, pretrain_without_lm_model := False\<rparr>)
       example_images example_targets example_input_ids example_attention_mask
       example_no_sentence example_no_sentence True None None False
     = ([ObjectDetectorCall, RegionSelectionCall], Inr (PyInt (- 1)))"
proof -
  let ?m = "example_model\<lparr>training := True, pretrain_without_lm_model := False\<rparr>"
  have mode: "training ?m"
    by simp
  have det: "object_detector ?m True example_images (Some example_targets)
               = Inr example_detector_output"
    by (rule example_detector_returns)
  have sel: "binary_classifier_region_selection ?m True
               (det_top_region_features example_detector_output)
               (det_class_detected example_detector_output) True (Some example_no_sentence)
               = Inr example_selector_output"
    by (simp only: example_detector_output_fields example_selector_returns)
  have shape: "map length (det_class_detected example_detector_output)
                 = map length example_no_sentence"
    by (simp only: example_detector_output_fields example_no_sentence_shape)
  have feats: "map length (det_top_region_features example_detector_output)
                 = map length example_no_sentence"
    by (simp only: example_detector_output_fields example_no_sentence_shape)
  have empty: "\<forall>i<length example_no_sentence. \<forall>r<29.
                 \<not> (det_class_detected example_detector_output ! i ! r
                      \<and> example_no_sentence ! i ! r)"
    using example_no_sentence_nowhere by (simp only: example_detector_output_fields)
  show ?thesis
    using empty_training_subset_short_circuit [OF mode det sel shape
        example_no_sentence_shape(2) example_no_sentence_shape(3)
        example_no_sentence_shape(4) feats empty,
        of example_no_sentence True None None False]
    by simp
qed

section \<open>The specification's selector\<close>

lemma logical_and_Inr:
  assumes "logical_and a b = Inr M"
  shows "map length a = map length b" and "M = training_mask a b"
proof -
  show shape: "map length a = map length b"
    using assms by (simp add: logical_and_def split: if_splits)
  show "M = training_mask a b"
    using assms logical_and_training_mask [OF shape] by simp
qed

lemma training_mask_implies_right:
  assumes shape: "map length a = map length b"
  shows "list_all2 (list_all2 (\<lambda>s d. s \<longrightarrow> d)) (training_mask a b) b"
proof -
  have n: "length a = length b"
    using shape by (metis length_map)
  have rowlen: "length (a ! i) = length (b ! i)" if "i < length a" for i
    using shape that n by (metis nth_map)
  show ?thesis
    by (simp add: list_all2_conv_all_nth training_mask_def n [symmetric] rowlen)
qed

lemma select_Inr:
  assumes "select predict loss_of is_training dense_features detected_mask return_loss gt
             = Inr sel"
  shows "list_all2 (list_all2 (\<lambda>s d. s \<longrightarrow> d)) (sel_selected_regions sel) detected_mask"
    and "sel_selected_region_features sel
           = map (\<lambda>(i, r). dense_features ! i ! r) (true_positions (sel_selected_regions sel))"
proof -
  obtain M where M: "logical_and (predict dense_features) detected_mask = Inr M"
    using assms by (auto simp: select_def split: sum.splits)
  obtain xs where xs: "getitem_mask2 dense_features M = Inr xs"
    using assms M by (auto simp: select_def split: sum.splits)
  have sel: "sel_selected_regions sel = M" "sel_selected_region_features sel = xs"
    using assms M xs by (auto simp: select_def)
  have shape: "map length dense_features = map length M"
    using xs by (simp add: getitem_mask2_def split: if_splits)
  show "list_all2 (list_all2 (\<lambda>s d. s \<longrightarrow> d)) (sel_selected_regions sel) detected_mask"
    using logical_and_Inr [OF M] training_mask_implies_right by (simp add: sel)
  show "sel_selected_region_features sel
           = map (\<lambda>(i, r). dense_features ! i ! r) (true_positions (sel_selected_regions sel))"
    using xs getitem_mask2_positions [OF shape] by (simp add: sel)
qed

section \<open>What forward passes to the language model in evaluation mode\<close>

text \<open>
  C4. In evaluation mode (with the language model in use), whenever the object detector
  and the classifier return and the tensors have their documented shapes, the language
  model is called (if at all) with the rows of \<open>input_ids\<close> and \<open>attention_mask\<close> at
  exactly the true positions of the classifier's \<open>selected_regions\<close>, and with the
  \<open>selected_region_features\<close> the classifier returned; \<open>region_has_sentence\<close> reaches
  the call only through the classifier. For a classifier that follows the
  specification's selector, these features are the region features at the same true
  positions of \<open>selected_regions\<close>.
\<close>

theorem evaluation_compacts_with_selected:
  assumes mode: "\<not> training m" "\<not> pretrain_without_lm_model m"
    and det: "object_detector m False images (Some image_targets) = Inr det"
    and sel: "binary_classifier_region_selection m False (det_top_region_features det)
                (det_class_detected det) True (Some region_has_sentence) = Inr sel"
    and rows: "\<forall>row\<in>set (sel_selected_regions sel). length row = 29"
    and ids: "length input_ids = length (sel_selected_regions sel) * 29"
    and am: "length attention_mask = length (sel_selected_regions sel) * 29"
  shows "fst (forward m images image_targets input_ids attention_mask region_has_sentence
                region_is_abnormal return_loss past_key_values position_ids use_cache)
           = [ObjectDetectorCall, RegionSelectionCall] @
             (if true_positions (sel_selected_regions sel) = [] then []
              else [LanguageModelCall
                      (map (\<lambda>(i, r). input_ids ! (i * 29 + r))
                         (true_positions (sel_selected_regions sel)))
                      (map (\<lambda>(i, r). attention_mask ! (i * 29 + r))
                         (true_positions (sel_selected_regions sel)))
                      (sel_selected_region_features sel)])
         \<and> (binary_classifier_region_selection m = select predict loss_of \<longrightarrow>
              sel_selected_region_features sel
                = map (\<lambda>(i, r). det_top_region_features det ! i ! r)
                    (true_positions (sel_selected_regions sel)))"
proof -
  have "binary_classifier_region_selection m = select predict loss_of \<Longrightarrow>
          sel_selected_region_features sel
            = map (\<lambda>(i, r). det_top_region_features det ! i ! r)
                (true_positions (sel_selected_regions sel))"
    using sel by (auto dest: select_Inr(2))
  moreover have "fst (forward m images image_targets input_ids attention_mask
                   region_has_sentence region_is_abnormal return_loss past_key_values
                   position_ids use_cache)
           = [ObjectDetectorCall, RegionSelectionCall] @
             (if true_positions (sel_selected_regions sel) = [] then []
              else [LanguageModelCall
                      (map (\<lambda>(i, r). input_ids ! (i * 29 + r))
                         (true_positions (sel_selected_regions sel)))
                      (map (\<lambda>(i, r). attention_mask ! (i * 29 + r))
                         (true_positions (sel_selected_regions sel)))
                      (sel_selected_region_features sel)])"
    using mode
    by (simp add: forward_def det sel Let_def
        evaluation_inputs_at_positions [OF rows ids am] split: sum.splits)
  ultimately show ?thesis by blast
qed


lemma example_detected_rows: "\<forall>row\<in>set example_detected. length row = 29"
  by code_simp

lemma example_detected_lengths:
  "length example_input_ids = length example_detected * 29"
  "length example_attention_mask = length example_detected * 29"
  by code_simp+

lemma example_detected_positions: "true_positions example_detected = [(0, 3), (0, 7), (1, 0)]"
  by code_simp

lemma example_selected_at:
  "map (\<lambda>(i, r). example_input_ids ! (i * 29 + r)) [(0, 3), (0, 7), (1, 0)]
     = [[3], [7], [29]]"
  "map (\<lambda>(i, r). example_attention_mask ! (i * 29 + r)) [(0, 3), (0, 7), (1, 0)]
     = [[Fin 1], [Fin 1], [Fin 1]]"
  "map (\<lambda>(i, r). example_features ! i ! r) [(0, 3), (0, 7), (1, 0)]
     = [[Fin 3], [Fin 7], [Fin 100]]"
  by code_simp+

lemma example_selector_is_select:
  "binary_classifier_region_selection
       (example_model\<lparr>training := t, pretrain_without_lm_model := p\<rparr>)
     = select (\<lambda>features. map (\<lambda>row. map (\<lambda>f. True) row) features) (\<lambda>features gt. Fin 3)"
  by (simp add: example_model_def)

theorem evaluation_compacts_with_selected_witness:
  "fst (forward (example_model\<lparr>training := False, pretrain_without_lm_model := False\<rparr>)
          example_images example_targets example_input_ids example_attention_mask
          example_has_sentence example_no_sentence True None None False)
     = [ObjectDetectorCall, RegionSelectionCall,
        LanguageModelCall [[3], [7], [29]] [[Fin 1], [Fin 1], [Fin 1]]
          [[Fin 3], [Fin 7], [Fin 100]]]
   \<and> [[Fin 3], [Fin 7], [Fin 100]]
     = map (\<lambda>(i, r). example_features ! i ! r) (true_positions example_detected)"
proof -
  let ?m = "example_model\<lparr>training := False, pretrain_without_lm_model := False\<rparr>"
  have mode: "\<not> training ?m" "\<not> pretrain_without_lm_model ?m"
    by simp_all
  have det: "object_detector ?m False example_images (Some example_targets)
               = Inr example_detector_output"
    by (rule example_detector_returns)
  have sel: "binary_classifier_region_selection ?m False
               (det_top_region_features example_detector_output)
               (det_class_detected example_detector_output) True (Some example_has_sentence)
               = Inr example_selector_output"
    by (simp only: example_detector_output_fields example_selector_returns)
  have rows: "\<forall>row\<in>set (sel_selected_regions example_selector_output). length row = 29"
    using example_detected_rows by (simp only: example_selector_output_fields)
  have ids: "length example_input_ids
               = length (sel_selected_regions example_selector_output) * 29"
    by (simp only: example_selector_output_fields example_detected_lengths)
  have am: "length example_attention_mask
              = length (sel_selected_regions example_selector_output) * 29"
    by (simp only: example_selector_output_fields example_detected_lengths)
  show ?thesis
    using evaluation_compacts_with_selected [OF mode det sel rows ids am,
        of example_no_sentence True None None False
           "\<lambda>features. map (\<lambda>row. map (\<lambda>f. True) row) features" "\<lambda>features gt. Fin 3"]
    by (simp only: example_selector_output_fields example_detector_output_fields
        example_detected_positions example_selected_at example_selector_is_select) simp
qed

section \<open>The selection invariant\<close>

lemma forward_evaluation_masks:
  assumes "\<not> training m"
    and "snd (forward m images image_targets input_ids attention_mask region_has_sentence
                region_is_abnormal return_loss past_key_values position_ids use_cache)
           = Inr (PyTuple xs)"
  shows "\<exists>(det::detector_output) (sel::selector_output).
           binary_classifier_region_selection m False (det_top_region_features det)
               (det_class_detected det) True (Some region_has_sentence) = Inr sel
           \<and> xs ! (length xs - 2) = BoolTensor (det_class_detected det)
           \<and> xs ! (length xs - 1) = BoolTensor (sel_selected_regions sel)"
proof -
  obtain det where det: "object_detector m False images (Some image_targets) = Inr det"
    using assms by (auto simp: forward_def split: sum.splits)
  obtain sel where sel: "binary_classifier_region_selection m False
      (det_top_region_features det) (det_class_detected det) True (Some region_has_sentence)
      = Inr sel"
    using assms det by (auto simp: forward_def split: sum.splits)
  have "xs ! (length xs - 2) = BoolTensor (det_class_detected det)
          \<and> xs ! (length xs - 1) = BoolTensor (sel_selected_regions sel)"
    using assms det sel
    by (auto simp: forward_def Let_def split: sum.splits if_splits prod.splits)
  with sel show ?thesis by blast
qed

lemma generate_masks:
  assumes "snd (generate m images max_length num_beams num_beam_groups do_sample
                  num_return_sequences early_stopping) = Inr (PyTuple ys)"
  shows "\<exists>(det::detector_output) (sel::selector_output).
           binary_classifier_region_selection m (training m) (det_top_region_features det)
               (det_class_detected det) False None = Inr sel
           \<and> ys ! 3 = BoolTensor (det_class_detected det)
           \<and> ys ! 1 = BoolTensor (sel_selected_regions sel)"
proof -
  obtain det where det: "object_detector m (training m) images None = Inr det"
    using assms by (auto simp: generate_def split: sum.splits)
  obtain sel where sel: "binary_classifier_region_selection m (training m)
      (det_top_region_features det) (det_class_detected det) False None = Inr sel"
    using assms det by (auto simp: generate_def split: sum.splits)
  have "ys ! 3 = BoolTensor (det_class_detected det)
          \<and> ys ! 1 = BoolTensor (sel_selected_regions sel)"
    using assms det sel
    by (auto simp: generate_def Let_def split: sum.splits if_splits)
  with sel show ?thesis by blast
qed

lemma mask_implies_by_index:
  "list_all2 (list_all2 (\<lambda>s d. s \<longrightarrow> d)) sr cd \<Longrightarrow>
     length sr = length cd \<and> (\<forall>i<length sr. length (sr ! i) = length (cd ! i)
         \<and> (\<forall>r<length (sr ! i). sr ! i ! r \<longrightarrow> cd ! i ! r))"
  by (auto simp: list_all2_conv_all_nth)

text \<open>
  C8. For a model whose classifier follows the specification's selector: whenever
  \<open>forward\<close> in evaluation mode or \<open>generate\<close> returns a tuple, the tuple holds the
  detected mask the object detector returned and the selected mask, of the same shape,
  and for every image \<open>i\<close> and region \<open>r\<close>, if the selected mask is true at
  \<open>(i, r)\<close> then the detected mask is true at \<open>(i, r)\<close>. The two functions return
  both masks as they received them.
\<close>

theorem selected_implies_detected:
  assumes selector: "binary_classifier_region_selection m = select predict loss_of"
  shows "(\<not> training m \<and>
          snd (forward m images image_targets input_ids attention_mask region_has_sentence
                 region_is_abnormal return_loss past_key_values position_ids use_cache)
            = Inr (PyTuple xs) \<longrightarrow>
          (\<exists>cd sr. xs ! (length xs - 2) = BoolTensor cd \<and> xs ! (length xs - 1) = BoolTensor sr
             \<and> length sr = length cd
             \<and> (\<forall>i<length sr. length (sr ! i) = length (cd ! i)
                   \<and> (\<forall>r<length (sr ! i). sr ! i ! r \<longrightarrow> cd ! i ! r))))
       \<and> (snd (generate m images max_length num_beams num_beam_groups do_sample
                 num_return_sequences early_stopping) = Inr (PyTuple ys) \<longrightarrow>
          (\<exists>cd sr. ys ! 3 = BoolTensor cd \<and> ys ! 1 = BoolTensor sr
             \<and> length sr = length cd
             \<and> (\<forall>i<length sr. length (sr ! i) = length (cd ! i)
                   \<and> (\<forall>r<length (sr ! i). sr ! i ! r \<longrightarrow> cd ! i ! r))))"
proof (intro conjI impI)
  assume a: "\<not> training m \<and>
          snd (forward m images image_targets input_ids attention_mask region_has_sentence
                 region_is_abnormal return_loss past_key_values position_ids use_cache)
            = Inr (PyTuple xs)"
  then obtain det :: detector_output and sel :: selector_output where
    sel: "select predict loss_of False (det_top_region_features det) (det_class_detected det)
            True (Some region_has_sentence) = Inr sel"
    and xs: "xs ! (length xs - 2) = BoolTensor (det_class_detected det)"
      "xs ! (length xs - 1) = BoolTensor (sel_selected_regions sel)"
    using forward_evaluation_masks [of m images image_targets input_ids attention_mask
        region_has_sentence region_is_abnormal return_loss past_key_values position_ids
        use_cache xs] selector
    by auto
  from mask_implies_by_index [OF select_Inr(1) [OF sel]] xs
  show "\<exists>cd sr. xs ! (length xs - 2) = BoolTensor cd \<and> xs ! (length xs - 1) = BoolTensor sr
             \<and> length sr = length cd
             \<and> (\<forall>i<length sr. length (sr ! i) = length (cd ! i)
                   \<and> (\<forall>r<length (sr ! i). sr ! i ! r \<longrightarrow> cd ! i ! r))"
    by blast
next
  assume "snd (generate m images max_length num_beams num_beam_groups do_sample
                 num_return_sequences early_stopping) = Inr (PyTuple ys)"
  then obtain det :: detector_output and sel :: selector_output where
    sel: "select predict loss_of (training m) (det_top_region_features det)
            (det_class_detected det) False None = Inr sel"
    and ys: "ys ! 3 = BoolTensor (det_class_detected det)"
      "ys ! 1 = BoolTensor (sel_selected_regions sel)"
    using generate_masks [of m images max_length num_beams num_beam_groups do_sample
        num_return_sequences early_stopping ys] selector
    by auto
  from mask_implies_by_index [OF select_Inr(1) [OF sel]] ys
  show "\<exists>cd sr. ys ! 3 = BoolTensor cd \<and> ys ! 1 = BoolTensor sr
             \<and> length sr = length cd
             \<and> (\<forall>i<length sr. length (sr ! i) = length (cd ! i)
                   \<and> (\<forall>r<length (sr ! i). sr ! i ! r \<longrightarrow> cd ! i ! r))"
    by blast
qed


lemma example_forward_evaluation:
  "snd (forward (example_model\<lparr>training := False, pretrain_without_lm_model := False\<rparr>)
          example_images example_targets example_input_ids example_attention_mask
          example_has_sentence example_no_sentence True None None False)
     = Inr (PyTuple [LossDict [(''loss_classifier'', Fin 2)], Loss (Fin 3), Loss (Fin 1),
                     Detections [], BoolTensor example_detected, BoolTensor example_detected])"
  by code_simp

lemma example_generate:
  "snd (generate (example_model\<lparr>training := False, pretrain_without_lm_model := False\<rparr>)
          example_images (Some 300) 4 1 False 1 True)
     = Inr (PyTuple [OutputIds [[0], [0], [0]], BoolTensor example_detected, Detections [],
                     BoolTensor example_detected])"
  by code_simp

theorem selected_implies_detected_witness:
  "(\<exists>cd sr.
      [LossDict [(''loss_classifier'', Fin 2)], Loss (Fin 3), Loss (Fin 1), Detections [],
       BoolTensor example_detected, BoolTensor example_detected] ! 4 = BoolTensor cd
      \<and> [LossDict [(''loss_classifier'', Fin 2)], Loss (Fin 3), Loss (Fin 1), Detections [],
         BoolTensor example_detected, BoolTensor example_detected] ! 5 = BoolTensor sr
      \<and> length sr = length cd
      \<and> (\<forall>i<length sr. length (sr ! i) = length (cd ! i)
            \<and> (\<forall>r<length (sr ! i). sr ! i ! r \<longrightarrow> cd ! i ! r)))
   \<and> (\<exists>cd sr.
      [OutputIds [[0], [0], [0]], BoolTensor example_detected, Detections [],
       BoolTensor example_detected] ! 3 = BoolTensor cd
      \<and> [OutputIds [[0], [0], [0]], BoolTensor example_detected, Detections [],
         BoolTensor example_detected] ! 1 = BoolTensor sr
      \<and> length sr = length cd
      \<and> (\<forall>i<length sr. length (sr ! i) = length (cd ! i)
            \<and> (\<forall>r<length (sr ! i). sr ! i ! r \<longrightarrow> cd ! i ! r)))"
proof -
  let ?m = "example_model\<lparr>training := False, pretrain_without_lm_model := False\<rparr>"
  have mode: "\<not> training ?m"
    by simp
  note inv = selected_implies_detected [OF example_selector_is_select,
      where images = example_images and image_targets = example_targets
        and input_ids = example_input_ids and attention_mask = example_attention_mask
        and region_has_sentence = example_has_sentence
        and region_is_abnormal = example_no_sentence and return_loss = True
        and past_key_values = None and position_ids = None and use_cache = False
        and max_length = "Some 300" and num_beams = 4 and num_beam_groups = 1
        and do_sample = False and num_return_sequences = 1 and early_stopping = True]
  from inv [THEN conjunct1, rule_format, OF conjI [OF mode example_forward_evaluation]]
    inv [THEN conjunct2, rule_format, OF example_generate]
  show ?thesis by simp
qed

section \<open>The evaluation loop\<close>

lemma example_batch_fields:
  "batch_images example_batch = example_images"
  "batch_image_targets example_batch = example_targets"
  "batch_region_has_sentence example_batch = example_has_sentence"
  "batch_region_is_abnormal example_batch = example_no_sentence"
  "batch_input_ids example_batch = example_input_ids"
  "batch_attention_mask example_batch = example_attention_mask"
  by (simp_all add: example_batch_def)

lemma initial_state_no_oom: "\<not> oom (initial_state env)"
  by (simp add: initial_state_def)

lemma forward_tuple_length:
  assumes "snd (forward m images image_targets input_ids attention_mask region_has_sentence
                  region_is_abnormal return_loss past_key_values position_ids use_cache)
             = Inr (PyTuple xs)"
  shows "length xs < 8"
    and "\<not> training m \<Longrightarrow> \<not> pretrain_without_lm_model m \<Longrightarrow>
           \<exists>ld sl ll d cd sr. xs = [LossDict ld, Loss sl, Loss ll, Detections d,
                                     BoolTensor cd, BoolTensor sr]"
    and "\<not> training m \<Longrightarrow> pretrain_without_lm_model m \<Longrightarrow>
           \<exists>ld sl d cd sr. xs = [LossDict ld, Loss sl, Detections d, BoolTensor cd,
                                  BoolTensor sr]"
  using assms
  by (auto simp: forward_def Let_def split: sum.splits if_splits prod.splits)

text \<open>
  C9 (as amended). Whenever the model's \<open>forward\<close> returns a tuple for a batch, the
  loop body fails with the \<open>ValueError\<close> of unpacking too few values into eight
  targets: no tuple that \<open>forward\<close> returns has eight components. In evaluation mode
  the tuple of a model built without \<open>pretrain_without_lm_model\<close> (as the evaluation
  script builds it) has exactly six components: detector loss dict, selector loss,
  language-model loss, detections, detected mask, selected mask. The tuple of a model
  built with \<open>pretrain_without_lm_model\<close> has exactly five: detector loss dict,
  selector loss, detections, detected mask, selected mask.
\<close>

theorem unpacking_eight_values_fails:
  assumes fwd: "snd (forward model (batch_images b) (batch_image_targets b)
                       (batch_input_ids b) (batch_attention_mask b)
                       (batch_region_has_sentence b) (batch_region_is_abnormal b)
                       True None None False) = Inr (PyTuple xs)"
    and no_oom: "\<not> oom s"
  shows "get_metric_scores_body env model s b
           = Inl (ValueError ''not enough values to unpack (expected 8)'')
         \<and> (\<not> training model \<and> \<not> pretrain_without_lm_model model \<longrightarrow>
              length xs = 6
              \<and> (\<exists>ld sl ll d cd sr. xs = [LossDict ld, Loss sl, Loss ll, Detections d,
                                           BoolTensor cd, BoolTensor sr]))
         \<and> (\<not> training model \<and> pretrain_without_lm_model model \<longrightarrow>
              length xs = 5
              \<and> (\<exists>ld sl d cd sr. xs = [LossDict ld, Loss sl, Detections d, BoolTensor cd,
                                        BoolTensor sr]))"
proof -
  have short: "length xs < 8"
    using fwd by (rule forward_tuple_length(1))
  have "get_metric_scores_body env model s b
          = Inl (ValueError ''not enough values to unpack (expected 8)'')"
    using no_oom short
    by (simp add: get_metric_scores_body_def call_model_def fwd Let_def)
  moreover have "\<exists>ld sl ll d cd sr. xs = [LossDict ld, Loss sl, Loss ll, Detections d,
                                            BoolTensor cd, BoolTensor sr]"
    if "\<not> training model" "\<not> pretrain_without_lm_model model"
    using forward_tuple_length(2) [OF fwd that] .
  moreover have "\<exists>ld sl d cd sr. xs = [LossDict ld, Loss sl, Detections d, BoolTensor cd,
                                         BoolTensor sr]"
    if "\<not> training model" "pretrain_without_lm_model model"
    using forward_tuple_length(3) [OF fwd that] .
  ultimately show ?thesis by auto
qed

lemma example_forward_evaluation_pretrain:
  "snd (forward (example_model\<lparr>training := False, pretrain_without_lm_model := True\<rparr>)
          example_images example_targets example_input_ids example_attention_mask
          example_has_sentence example_no_sentence True None None False)
     = Inr (PyTuple [LossDict [(''loss_classifier'', Fin 2)], Loss (Fin 3), Detections [],
                     BoolTensor example_detected, BoolTensor example_detected])"
  by code_simp

theorem six_components_counterexample:
  "\<not> training (example_model\<lparr>training := False, pretrain_without_lm_model := True\<rparr>)
   \<and> snd (forward (example_model\<lparr>training := False, pretrain_without_lm_model := True\<rparr>)
          (batch_images example_batch) (batch_image_targets example_batch)
          (batch_input_ids example_batch) (batch_attention_mask example_batch)
          (batch_region_has_sentence example_batch) (batch_region_is_abnormal example_batch)
          True None None False)
     = Inr (PyTuple [LossDict [(''loss_classifier'', Fin 2)], Loss (Fin 3), Detections [],
                     BoolTensor example_detected, BoolTensor example_detected])
   \<and> length [LossDict [(''loss_classifier'', Fin 2)], Loss (Fin 3), Detections [],
              BoolTensor example_detected, BoolTensor example_detected] \<noteq> 6"
  by (simp add: example_batch_fields example_forward_evaluation_pretrain)

theorem unpacking_eight_values_fails_witness:
  "get_metric_scores_body example_env
       (example_model\<lparr>training := False, pretrain_without_lm_model := False\<rparr>)
       (initial_state example_env) example_batch
     = Inl (ValueError ''not enough values to unpack (expected 8)'')
   \<and> length [LossDict [(''loss_classifier'', Fin 2)], Loss (Fin 3), Loss (Fin 1),
              Detections [], BoolTensor example_detected, BoolTensor example_detected] = 6
   \<and> get_metric_scores_body example_env
       (example_model\<lparr>training := False, pretrain_without_lm_model := True\<rparr>)
       (initial_state example_env) example_batch
     = Inl (ValueError ''not enough values to unpack (expected 8)'')
   \<and> length [LossDict [(''loss_classifier'', Fin 2)], Loss (Fin 3), Detections [],
              BoolTensor example_detected, BoolTensor example_detected] = 5"
proof -
  let ?m = "example_model\<lparr>training := False, pretrain_without_lm_model := False\<rparr>"
  let ?p = "example_model\<lparr>training := False, pretrain_without_lm_model := True\<rparr>"
  have mode: "\<not> training ?m \<and> \<not> pretrain_without_lm_model ?m"
    "\<not> training ?p \<and> pretrain_without_lm_model ?p"
    by simp_all
  have fwd: "snd (forward ?m (batch_images example_batch) (batch_image_targets example_batch)
                    (batch_input_ids example_batch) (batch_attention_mask example_batch)
                    (batch_region_has_sentence example_batch)
                    (batch_region_is_abnormal example_batch) True None None False)
               = Inr (PyTuple [LossDict [(''loss_classifier'', Fin 2)], Loss (Fin 3),
                               Loss (Fin 1), Detections [], BoolTensor example_detected,
                               BoolTensor example_detected])"
    by (simp only: example_batch_fields example_forward_evaluation)
  have fwd_pretrain:
    "snd (forward ?p (batch_images example_batch) (batch_image_targets example_batch)
            (batch_input_ids example_batch) (batch_attention_mask example_batch)
            (batch_region_has_sentence example_batch)
            (batch_region_is_abnormal example_batch) True None None False)
       = Inr (PyTuple [LossDict [(''loss_classifier'', Fin 2)], Loss (Fin 3), Detections [],
                       BoolTensor example_detected, BoolTensor example_detected])"
    by (simp only: example_batch_fields example_forward_evaluation_pretrain)
  from unpacking_eight_values_fails [OF fwd initial_state_no_oom, of example_env]
    unpacking_eight_values_fails [OF fwd_pretrain initial_state_no_oom, of example_env] mode
  show ?thesis by blast
qed

text \<open>
  C10. Whenever \<open>forward\<close> returns the sentinel \<open>-1\<close> for a batch, the loop body ends
  with \<open>continue\<close> in a state that differs from the state before the batch only in the
  variable \<open>output\<close>: none of the three score accumulators is updated, and the image
  count, raised by the batch size at the start of the iteration, is lowered by it again.
\<close>

theorem sentinel_batch_changes_nothing:
  assumes fwd: "snd (forward model (batch_images b) (batch_image_targets b)
                       (batch_input_ids b) (batch_attention_mask b)
                       (batch_region_has_sentence b) (batch_region_is_abnormal b)
                       True None None False) = Inr (PyInt (- 1))"
    and no_oom: "\<not> oom s"
  shows "get_metric_scores_body env model s b = Inr (s\<lparr>model_output := Some (PyInt (- 1))\<rparr>)
         \<and> obj_detector_scores (s\<lparr>model_output := Some (PyInt (- 1))\<rparr>) = obj_detector_scores s
         \<and> region_selection_scores (s\<lparr>model_output := Some (PyInt (- 1))\<rparr>)
             = region_selection_scores s
         \<and> region_abnormal_scores (s\<lparr>model_output := Some (PyInt (- 1))\<rparr>)
             = region_abnormal_scores s
         \<and> num_images (s\<lparr>model_output := Some (PyInt (- 1))\<rparr>) = num_images s"
  using no_oom
  by (simp add: get_metric_scores_body_def call_model_def fwd Let_def)


lemma example_forward_sentinel:
  "snd (forward example_model_selecting_nothing example_images example_targets
          example_input_ids example_attention_mask example_has_sentence example_no_sentence
          True None None False) = Inr (PyInt (- 1))"
  by code_simp

theorem sentinel_batch_changes_nothing_witness:
  "get_metric_scores_body example_env example_model_selecting_nothing
       (initial_state example_env) example_batch
     = Inr ((initial_state example_env)\<lparr>model_output := Some (PyInt (- 1))\<rparr>)
   \<and> num_images ((initial_state example_env)\<lparr>model_output := Some (PyInt (- 1))\<rparr>) = 0"
proof -
  have fwd: "snd (forward example_model_selecting_nothing (batch_images example_batch)
                    (batch_image_targets example_batch) (batch_input_ids example_batch)
                    (batch_attention_mask example_batch)
                    (batch_region_has_sentence example_batch)
                    (batch_region_is_abnormal example_batch) True None None False)
               = Inr (PyInt (- 1))"
    by (simp only: example_batch_fields example_forward_sentinel)
  from sentinel_batch_changes_nothing [OF fwd initial_state_no_oom, of example_env]
  show ?thesis by (simp add: initial_state_def)
qed

subsection \<open>Out of memory\<close>

lemma out_of_memory_is_raised_again:
  assumes "snd (forward model (batch_images b) (batch_image_targets b) (batch_input_ids b)
                  (batch_attention_mask b) (batch_region_has_sentence b)
                  (batch_region_is_abnormal b) True None None False)
             = Inl (RuntimeError msg)"
    and "str_contains ''out of memory'' msg"
  shows "get_metric_scores_body env model s b = Inl (RuntimeError msg)"
    and "get_metric_scores env model (b # test_loader) = Inl (RuntimeError msg)"
  using assms
  by (simp_all add: get_metric_scores_def get_metric_scores_body_def call_model_def Let_def)

lemma oom_stays_false:
  "get_metric_scores_body env model s b = Inr s' \<Longrightarrow> \<not> oom s \<Longrightarrow> \<not> oom s'"
  by (auto simp: get_metric_scores_body_def call_model_def Let_def
      split: sum.splits error.splits if_splits option.splits py_result.splits)

text \<open>
  C5 (the code does otherwise). The object detector of \<open>example_model_out_of_memory\<close>
  raises a \<open>RuntimeError\<close> whose message contains "out of memory". The handler in
  \<open>get_metric_scores\<close> raises it again, so the run over a test loader holding the
  example batch ends with this exception instead of skipping the batch.
\<close>

theorem out_of_memory_leaves_get_metric_scores:
  "snd (forward example_model_out_of_memory example_images example_targets example_input_ids
          example_attention_mask example_has_sentence example_no_sentence True None None False)
     = Inl (RuntimeError ''CUDA out of memory. Tried to allocate 20.00 MiB'')
   \<and> get_metric_scores example_env example_model_out_of_memory [example_batch]
     = Inl (RuntimeError ''CUDA out of memory. Tried to allocate 20.00 MiB'')"
  by code_simp

section \<open>Finalization of the object detector scores\<close>

subsection \<open>A run that returns has only skipped batches\<close>










subsection \<open>Regions with an empty union\<close>

lemma example_sums_shape:
  "length (sum_intersection_area_per_region example_sums)
     = length (sum_union_area_per_region example_sums)"
  by code_simp

text \<open>
  C6 (as amended). For a region \<open>k\<close> whose union area is zero, the per-region IoU is
  the result of the float division of its intersection area by zero: NaN when the
  intersection area is zero as well, and an infinity otherwise. It is never a finite
  number such as zero; the list holds floats only, so nothing marks the entry as
  "no data".
\<close>

theorem zero_union_is_nan_or_infinite:
  assumes shape: "length (sum_intersection_area_per_region scores)
                    = length (sum_union_area_per_region scores)"
    and k: "k < length (sum_union_area_per_region scores)"
    and zero: "sum_union_area_per_region scores ! k = Fin 0"
  shows "\<exists>r. compute_obj_detector_scores scores n = Inr r
           \<and> avg_iou_per_region r ! k
               = fdiv (sum_intersection_area_per_region scores ! k) (Fin 0)
           \<and> (avg_iou_per_region r ! k = NaN \<or> avg_iou_per_region r ! k = PosInf
                \<or> avg_iou_per_region r ! k = NegInf)
           \<and> (sum_intersection_area_per_region scores ! k = Fin 0 \<longrightarrow>
                avg_iou_per_region r ! k = NaN)"
proof -
  have "fdiv x (Fin 0) = NaN \<or> fdiv x (Fin 0) = PosInf \<or> fdiv x (Fin 0) = NegInf" for x
    by (cases x) simp_all
  then show ?thesis
    using shape k zero
    by (simp add: compute_obj_detector_scores_def tensor_div_def Let_def)
qed


lemma example_sums_region_5:
  "5 < length (sum_union_area_per_region example_sums)"
  "sum_union_area_per_region example_sums ! 5 = Fin 0"
  "sum_intersection_area_per_region example_sums ! 5 = Fin 0"
  by code_simp+

theorem zero_union_is_nan_or_infinite_witness:
  "\<exists>r. compute_obj_detector_scores example_sums 2 = Inr r \<and> avg_iou_per_region r ! 5 = NaN"
  using zero_union_is_nan_or_infinite [OF example_sums_shape example_sums_region_5(1,2), of 2]
    example_sums_region_5(3)
  by auto

theorem zero_union_no_data_counterexample:
  "get_metric_scores_loop example_env example_model (initial_state example_env) []
     = Inr (initial_state example_env)
   \<and> sum_union_area_per_region (obj_detector_scores (initial_state example_env)) ! 5 = Fin 0
   \<and> compute_obj_detector_scores (obj_detector_scores (initial_state example_env))
       (num_images (initial_state example_env))
     = Inr \<lparr>sum_intersection_area_per_region = replicate 29 (Fin 0),
            sum_union_area_per_region = replicate 29 (Fin 0),
            sum_region_detected = replicate 29 (Fin 0),
            avg_iou = NaN,
            avg_iou_per_region = replicate 29 NaN,
            avg_num_detected_regions_per_image = NaN,
            avg_detections_per_region = replicate 29 NaN\<rparr>
   \<and> replicate 29 NaN ! 5 = NaN"
  by code_simp

end
